theory Spec2Isabelle
  imports Complex_Main "HOL-Library.Char_ord" "HOL-Library.List_Lexorder" "HOL-Library.Multiset"
begin

section \<open>Strings\<close>

text \<open>
  A Python \<open>str\<close> is a \<^typ>\<open>string\<close>; a \<^typ>\<open>char\<close> stands for a code point below 256.
  The order on strings is the lexicographic order on code points, as Python's \<open><\<close> on
  \<open>str\<close>.
\<close>

text \<open>\<open>str.isspace\<close> on one code point below 256.\<close>

definition isspace :: "char \<Rightarrow> bool" where
  "isspace c \<longleftrightarrow>
     c \<in> set [CHR 0x09, CHR 0x0A, CHR 0x0B, CHR 0x0C, CHR 0x0D,
               CHR 0x1C, CHR 0x1D, CHR 0x1E, CHR 0x1F, CHR 0x20, CHR 0x85, CHR 0xA0]"

text \<open>\<open>s.strip()\<close>: whitespace is removed at both ends.\<close>

definition lstrip :: "string \<Rightarrow> string" where
  "lstrip s = dropWhile isspace s"

definition rstrip :: "string \<Rightarrow> string" where
  "rstrip s = rev (dropWhile isspace (rev s))"

definition strip :: "string \<Rightarrow> string" where
  "strip s = rstrip (lstrip s)"

text \<open>\<open>s.startswith(p)\<close>.\<close>

definition startswith :: "string \<Rightarrow> string \<Rightarrow> bool" where
  "startswith s p \<longleftrightarrow> take (length p) s = p"

section \<open>Tables\<close>

text \<open>
  A number of pandas is a 64-bit integer or a 64-bit float. An integer is held by its
  value; it is an \<open>int64\<close> only when it lies in the range of \<open>int64\<close>. A float is held by
  its value as an exact rational: rounding is not part of this model, overflow is (see
  \<open>float_add\<close> below).
\<close>

datatype number = Integer int | Floating rat

fun number_value :: "number \<Rightarrow> rat" where
  "number_value (Integer i) = of_int i"
| "number_value (Floating x) = x"

text \<open>A cell of a pandas \<open>DataFrame\<close>: a number, a \<open>str\<close> or a missing value (\<open>NaN\<close>).\<close>

datatype cell = Number number | Text string | Blank

text \<open>
  The key of a group of a \<open>groupby\<close>: a number by its value, or a string. pandas sorts
  the keys: numbers by value, then strings by string comparison.
\<close>

datatype key = NumKey rat | TextKey string

fun key_le :: "key \<Rightarrow> key \<Rightarrow> bool" where
  "key_le (NumKey x) (NumKey y) = (x \<le> y)"
| "key_le (NumKey x) (TextKey t) = True"
| "key_le (TextKey s) (NumKey y) = False"
| "key_le (TextKey s) (TextKey t) = (s \<le> t)"

instantiation key :: linorder
begin

definition less_eq_key :: "key \<Rightarrow> key \<Rightarrow> bool" where
  "less_eq_key a b = key_le a b"

definition less_key :: "key \<Rightarrow> key \<Rightarrow> bool" where
  "less_key a b \<longleftrightarrow> key_le a b \<and> \<not> key_le b a"

instance
proof
  fix x y z :: key
  show "(x < y) = (x \<le> y \<and> \<not> y \<le> x)"
    by (simp add: less_key_def less_eq_key_def)
  show "x \<le> x"
    by (cases x) (simp_all add: less_eq_key_def)
  show "x \<le> y \<Longrightarrow> y \<le> z \<Longrightarrow> x \<le> z"
    by (cases x; cases y; cases z) (auto simp: less_eq_key_def)
  show "x \<le> y \<Longrightarrow> y \<le> x \<Longrightarrow> x = y"
    by (cases x; cases y) (auto simp: less_eq_key_def)
  show "x \<le> y \<or> y \<le> x"
    by (cases x; cases y) (auto simp: less_eq_key_def)
qed

end

record dataframe =
  columns :: "cell list"
  rows :: "cell list list"

text \<open>
  What the program reports instead of a result. Each value stands for one
  \<open>messagebox.showerror\<close> followed by \<open>return None\<close>; \<open>MissingColumns\<close> carries the
  names that the message lists.
\<close>

datatype failure =
    HeaderNotFound
  | MissingColumns "string list"
  | InvalidSheetChoice
  | EmptyDataError
  | ParserError
  | UnexpectedError
  | NoFileSelected
  | UnsupportedFileType

section \<open>Reading a CSV file\<close>

definition header_prefix :: string where
  "header_prefix = ''Time,Metric,Value,Measurement''"

definition required_columns :: "string list" where
  "required_columns = [''Measurement'', ''Percentage Loss'']"

text \<open>\<open>line.strip().startswith("Time,Metric,Value,Measurement")\<close>.\<close>

definition is_header_line :: "string \<Rightarrow> bool" where
  "is_header_line line \<longleftrightarrow> startswith (strip line) header_prefix"

text \<open>
  The file is opened with \<open>open(file_path, 'r', encoding='utf-8')\<close>. A line of it is its
  text (with its line end) when its bytes decode, and \<open>Undecodable\<close> when they do not:
  reading such a line raises \<open>UnicodeDecodeError\<close>.
\<close>

datatype raw_line = Line string | Undecodable

text \<open>
  The \<open>for idx, line in enumerate(f)\<close> loop with its \<open>else\<close> branch: the index of the
  first line that passes the test, or \<open>None\<close> when the loop runs out. The loop reads the
  lines one by one up to its \<open>break\<close>; a line that does not decode raises there, which
  the \<open>except Exception\<close> clause around the loop reports as an unexpected error.
\<close>

fun find_header_row :: "nat \<Rightarrow> raw_line list \<Rightarrow> failure + nat option" where
  "find_header_row idx [] = Inr None"
| "find_header_row idx (Undecodable # f) = Inl UnexpectedError"
| "find_header_row idx (Line line # f) =
     (if is_header_line line then Inr (Some idx) else find_header_row (Suc idx) f)"

text \<open>
  \<open>skiprows\<close> of \<open>pd.read_csv\<close>: the lines whose number is listed are left out. Lines are
  counted as the file iteration above counts them.
\<close>

definition skiprows :: "nat list \<Rightarrow> 'a list \<Rightarrow> 'a list" where
  "skiprows ns f = map snd (filter (\<lambda>(i, line). i \<notin> set ns) (enumerate 0 f))"

text \<open>\<open>all(col in df.columns for col in required_columns)\<close>.\<close>

definition has_required_columns :: "dataframe \<Rightarrow> bool" where
  "has_required_columns df \<longleftrightarrow> list_all (\<lambda>col. Text col \<in> set (columns df)) required_columns"

text \<open>
  The check that follows \<open># Validate required columns\<close>, the same in both readers.
\<close>

definition validate_columns :: "dataframe \<Rightarrow> failure + dataframe" where
  "validate_columns df =
     (if \<not> has_required_columns df then Inl (MissingColumns required_columns) else Inr df)"

text \<open>The required columns that a frame lacks, for the statements below.\<close>

definition missing_columns :: "dataframe \<Rightarrow> string list" where
  "missing_columns df = filter (\<lambda>col. Text col \<notin> set (columns df)) required_columns"

text \<open>
  \<open>read_csv_with_header_detection\<close>. The file is the list of its lines. The tokenizer of
  \<open>pd.read_csv\<close> is the parameter \<open>read_csv\<close>: with \<open>header=0\<close> it takes its first line
  as the header and either fails (\<open>EmptyDataError\<close>, \<open>ParserError\<close>, any other
  exception) or returns a frame.
\<close>

definition read_csv_with_header_detection ::
  "(raw_line list \<Rightarrow> failure + dataframe) \<Rightarrow> raw_line list \<Rightarrow> failure + dataframe" where
  "read_csv_with_header_detection read_csv f =
     (case find_header_row 0 f of
        Inl e \<Rightarrow> Inl e
      | Inr None \<Rightarrow> Inl HeaderNotFound
      | Inr (Some header_row) \<Rightarrow>
          (case read_csv (skiprows [0..<header_row] f) of
             Inl e \<Rightarrow> Inl e
           | Inr df \<Rightarrow> validate_columns df))"


section \<open>Reading an Excel file\<close>

text \<open>
  A workbook is the list of its sheets with their names, a sheet is the list of its rows as
  \<open>pd.read_excel(..., header=None)\<close> returns them.
\<close>

type_synonym sheet = "cell list list"

type_synonym workbook = "(string \<times> sheet) list"

text \<open>\<open>isinstance(row[0], str) and row[0].startswith("Time")\<close>.\<close>

fun starts_with_time :: "cell list \<Rightarrow> bool" where
  "starts_with_time (Text s # row) = startswith s ''Time''"
| "starts_with_time row = False"

text \<open>The inner loop \<open>for idx, row in temp_df.iterrows()\<close>, up to its \<open>break\<close>.\<close>

fun find_time_row :: "nat \<Rightarrow> sheet \<Rightarrow> nat option" where
  "find_time_row idx [] = None"
| "find_time_row idx (row # temp_df) =
     (if starts_with_time row then Some idx else find_time_row (Suc idx) temp_df)"

text \<open>\<open>pd.read_excel(file_path, sheet_name=sheet, header=None)\<close>.\<close>

definition sheet_by_name :: "workbook \<Rightarrow> string \<Rightarrow> sheet" where
  "sheet_by_name xls sheet = (case map_of xls sheet of None \<Rightarrow> [] | Some temp_df \<Rightarrow> temp_df)"

text \<open>
  \<open>pd.read_excel(file_path, sheet_name=sheet, skiprows=range(0, idx), header=0)\<close>: the
  first row that is not skipped gives the column names, the rows below it are the data.
\<close>

definition read_excel :: "sheet \<Rightarrow> nat \<Rightarrow> dataframe" where
  "read_excel temp_df idx =
     (case drop idx temp_df of
        [] \<Rightarrow> \<lparr>columns = [], rows = []\<rparr>
      | header # data \<Rightarrow> \<lparr>columns = header, rows = data\<rparr>)"

text \<open>
  The outer loop \<open>for sheet in sheet_names\<close>: the first sheet with such a row, the index
  of the row and the frame read below it.
\<close>

fun search_sheets :: "workbook \<Rightarrow> string list \<Rightarrow> (string \<times> nat \<times> dataframe) option" where
  "search_sheets xls [] = None"
| "search_sheets xls (sheet # sheet_names) =
     (case find_time_row 0 (sheet_by_name xls sheet) of
        Some idx \<Rightarrow> Some (sheet, idx, read_excel (sheet_by_name xls sheet) idx)
      | None \<Rightarrow> search_sheets xls sheet_names)"

text \<open>
  \<open>read_excel_with_header_detection\<close>. \<open>answer\<close> is what \<open>simpledialog.askstring\<close>
  returns if it is called (\<open>None\<close> when the dialog is cancelled); the first component of
  the result tells whether it was called.
\<close>

definition read_excel_with_header_detection ::
  "string option \<Rightarrow> workbook \<Rightarrow> bool \<times> (failure + dataframe)" where
  "read_excel_with_header_detection answer xls =
     (let sheet_names = map fst xls in
      case search_sheets xls sheet_names of
        None \<Rightarrow> (False, Inl HeaderNotFound)
      | Some (selected_sheet, idx, df) \<Rightarrow>
          if count_list sheet_names selected_sheet > 1 then
            (case answer of
               None \<Rightarrow> (True, Inl InvalidSheetChoice)
             | Some chosen \<Rightarrow>
                 if chosen \<notin> set sheet_names then (True, Inl InvalidSheetChoice)
                 else (True, validate_columns (read_excel (sheet_by_name xls chosen) idx)))
          else (False, validate_columns df))"

section \<open>Cleaning and grouping\<close>

record options =
  include_average :: bool
  include_overall_average :: bool

text \<open>A float that may be \<open>NaN\<close>: \<open>None\<close> is \<open>NaN\<close>.\<close>

type_synonym float = "rat option"

text \<open>A float that may be infinite: what the sum of two floats can be.\<close>

datatype float64 = Finite rat | Infinity | MinusInfinity

text \<open>
  One row of the frame \<open>grouped\<close>; \<open>Average\<close> is \<open>None\<close> when the column is absent.
\<close>

record group_summary =
  Measurement :: key
  Min_Loss :: rat
  Max_Loss :: rat
  Average :: "float64 option"

text \<open>
  What \<open>process_data\<close> leaves behind: \<open>self.grouped_data\<close>, \<open>self.overall_min_avg\<close>,
  \<open>self.overall_max_avg\<close> (\<open>None\<close> when not requested) and the number shown by
  \<open>messagebox.showwarning\<close>, if it is shown.
\<close>

record outcome =
  grouped_data :: "group_summary list"
  overall_min_avg :: "float option"
  overall_max_avg :: "float option"
  warning :: "nat option"

fun index_of :: "'a \<Rightarrow> 'a list \<Rightarrow> nat option" where
  "index_of c [] = None"
| "index_of c (x # xs) = (if x = c then Some 0 else map_option Suc (index_of c xs))"

text \<open>
  \<open>df[name]\<close>: the cells of the column, a row that is too short having \<open>NaN\<close> there;
  \<open>None\<close> stands for the \<open>KeyError\<close>.
\<close>

definition cell_of :: "nat \<Rightarrow> cell list \<Rightarrow> cell" where
  "cell_of i row = (if i < length row then row ! i else Blank)"

definition column :: "dataframe \<Rightarrow> string \<Rightarrow> cell list option" where
  "column df name =
     (case index_of (Text name) (columns df) of
        None \<Rightarrow> None
      | Some i \<Rightarrow> Some (map (cell_of i) (rows df)))"

text \<open>
  \<open>pd.to_numeric(..., errors='coerce')\<close> on one cell. How pandas reads a number in a
  \<open>str\<close> is the parameter \<open>parse\<close>, which is \<open>None\<close> where the text is no number.
\<close>

fun to_numeric :: "(string \<Rightarrow> number option) \<Rightarrow> cell \<Rightarrow> number option" where
  "to_numeric parse (Number n) = Some n"
| "to_numeric parse (Text s) = parse s"
| "to_numeric parse Blank = None"

text \<open>
  The kind of the column that \<open>pd.to_numeric\<close> returns: \<open>int64\<close> when every entry is an
  integer in the range of \<open>int64\<close>, and \<open>float64\<close> otherwise, in particular when an entry
  is \<open>NaN\<close>. \<open>dropna\<close> does not change the kind.
\<close>

fun is_int64 :: "number option \<Rightarrow> bool" where
  "is_int64 (Some (Integer i)) = (- (2 ^ 63) \<le> i \<and> i < 2 ^ 63)"
| "is_int64 v = False"

definition int64_column :: "number option list \<Rightarrow> bool" where
  "int64_column numeric = list_all is_int64 numeric"

text \<open>
  \<open>df.dropna(subset=['Percentage Loss'])\<close> on the two columns that are used later: the
  rows whose value is \<open>NaN\<close> are left out.
\<close>

fun dropna :: "(cell \<times> number option) list \<Rightarrow> (cell \<times> rat) list" where
  "dropna [] = []"
| "dropna ((m, None) # df) = dropna df"
| "dropna ((m, Some v) # df) = (m, number_value v) # dropna df"

text \<open>
  \<open>df.groupby("Measurement")["Percentage Loss"].agg(['min', 'max']).reset_index()\<close>: one
  row for each key, the keys sorted; rows whose key is \<open>NaN\<close> belong to no group.
\<close>

fun key_of :: "cell \<Rightarrow> key option" where
  "key_of (Number n) = Some (NumKey (number_value n))"
| "key_of (Text s) = Some (TextKey s)"
| "key_of Blank = None"

definition group_values :: "(cell \<times> rat) list \<Rightarrow> key \<Rightarrow> rat list" where
  "group_values df k = map snd (filter (\<lambda>(m, v). key_of m = Some k) df)"

definition group_keys :: "(cell \<times> rat) list \<Rightarrow> key list" where
  "group_keys df = sorted_list_of_set (set (List.map_filter key_of (map fst df)))"

definition groupby_min_max :: "(cell \<times> rat) list \<Rightarrow> group_summary list" where
  "groupby_min_max df =
     map (\<lambda>k. \<lparr>Measurement = k,
                Min_Loss = Min (set (group_values df k)),
                Max_Loss = Max (set (group_values df k)),
                Average = None\<rparr>)
         (group_keys df)"

text \<open>\<open>Series.mean()\<close>, which is \<open>NaN\<close> on an empty series.\<close>

definition mean :: "rat list \<Rightarrow> float" where
  "mean vs = (if vs = [] then None else Some (sum_list vs / of_nat (length vs)))"

text \<open>
  The sum of two \<open>int64\<close> wraps around: it is the sum modulo \<open>2 ^ 64\<close> in the range of
  \<open>int64\<close>.
\<close>

definition int64_add :: "int \<Rightarrow> int \<Rightarrow> int" where
  "int64_add a b = (a + b + 2 ^ 63) mod 2 ^ 64 - 2 ^ 63"

text \<open>
  The sum of two finite floats is infinite when it does not round to a finite float,
  that is from \<open>2 ^ 1024 - 2 ^ 970\<close> on.
\<close>

definition float_add :: "rat \<Rightarrow> rat \<Rightarrow> float64" where
  "float_add a b =
     (if 2 ^ 1024 - 2 ^ 970 \<le> a + b then Infinity
      else if a + b \<le> - (2 ^ 1024 - 2 ^ 970) then MinusInfinity
      else Finite (a + b))"

fun half :: "float64 \<Rightarrow> float64" where
  "half (Finite x) = Finite (x / 2)"
| "half Infinity = Infinity"
| "half MinusInfinity = MinusInfinity"

text \<open>
  \<open>grouped['Average'] = (grouped['Min Loss'] + grouped['Max Loss']) / 2\<close>, row by row:
  the two columns have the kind of the value column, their sum is taken in that kind,
  and the division yields a float.
\<close>

definition add_average :: "bool \<Rightarrow> group_summary \<Rightarrow> group_summary" where
  "add_average int64 g =
     g\<lparr>Average :=
         Some (if int64
               then Finite (of_int (int64_add \<lfloor>Min_Loss g\<rfloor> \<lfloor>Max_Loss g\<rfloor>) / 2)
               else half (float_add (Min_Loss g) (Max_Loss g)))\<rparr>"

text \<open>
  The body of \<open>process_data\<close> from \<open># Data Cleaning\<close> on, for a frame that was read.
  A missing column raises \<open>KeyError\<close>, which the \<open>except Exception\<close> clause reports.
\<close>

definition process_frame ::
  "(string \<Rightarrow> number option) \<Rightarrow> options \<Rightarrow> dataframe \<Rightarrow> failure + outcome" where
  "process_frame parse opts df =
     (case (column df ''Percentage Loss'', column df ''Measurement'') of
        (Some loss, Some measurement) \<Rightarrow>
          (let numeric = map (to_numeric parse) loss;
               int64 = int64_column numeric;
               initial_row_count = length (rows df);
               cleaned = dropna (zip measurement numeric);
               cleaned_row_count = length cleaned;
               dropped_rows = initial_row_count - cleaned_row_count;
               grouped = groupby_min_max cleaned;
               grouped = (if include_average opts then map (add_average int64) grouped
                          else grouped)
           in Inr \<lparr>grouped_data = grouped,
                   overall_min_avg =
                     (if include_overall_average opts then Some (mean (map Min_Loss grouped))
                      else None),
                   overall_max_avg =
                     (if include_overall_average opts then Some (mean (map Max_Loss grouped))
                      else None),
                   warning = (if dropped_rows > 0 then Some dropped_rows else None)\<rparr>)
      | _ \<Rightarrow> Inl UnexpectedError)"

text \<open>
  The cleaned table of a frame, for the statements below: for each row that is kept, its
  cell in the column \<open>Measurement\<close> and its value in the column \<open>Percentage Loss\<close>; and
  whether the value column is of the kind \<open>int64\<close>.
\<close>

definition loss_cell :: "dataframe \<Rightarrow> cell list \<Rightarrow> cell" where
  "loss_cell df row =
     (case index_of (Text ''Percentage Loss'') (columns df) of
        None \<Rightarrow> Blank
      | Some i \<Rightarrow> cell_of i row)"

definition measurement_cell :: "dataframe \<Rightarrow> cell list \<Rightarrow> cell" where
  "measurement_cell df row =
     (case index_of (Text ''Measurement'') (columns df) of
        None \<Rightarrow> Blank
      | Some i \<Rightarrow> cell_of i row)"

definition invalid_row :: "(string \<Rightarrow> number option) \<Rightarrow> dataframe \<Rightarrow> cell list \<Rightarrow> bool" where
  "invalid_row parse df row \<longleftrightarrow> to_numeric parse (loss_cell df row) = None"

definition cleaned :: "(string \<Rightarrow> number option) \<Rightarrow> dataframe \<Rightarrow> (cell \<times> rat) list" where
  "cleaned parse df =
     dropna (map (\<lambda>row. (measurement_cell df row, to_numeric parse (loss_cell df row))) (rows df))"

definition int64_frame :: "(string \<Rightarrow> number option) \<Rightarrow> dataframe \<Rightarrow> bool" where
  "int64_frame parse df = int64_column (map (\<lambda>row. to_numeric parse (loss_cell df row)) (rows df))"

text \<open>
  What \<open>process_data\<close> computes from the kind of the value column, the number of rows read
  and the cleaned table.
\<close>

definition summary :: "options \<Rightarrow> bool \<Rightarrow> nat \<Rightarrow> (cell \<times> rat) list \<Rightarrow> outcome" where
  "summary opts int64 n c =
     (let grouped = (if include_average opts then map (add_average int64) (groupby_min_max c)
                     else groupby_min_max c)
      in \<lparr>grouped_data = grouped,
          overall_min_avg =
            (if include_overall_average opts then Some (mean (map Min_Loss grouped)) else None),
          overall_max_avg =
            (if include_overall_average opts then Some (mean (map Max_Loss grouped)) else None),
          warning = (if n - length c > 0 then Some (n - length c) else None)\<rparr>)"



text \<open>The file that was selected, by its extension.\<close>

datatype data_file = Csv "raw_line list" | Excel workbook | Other

text \<open>\<open>process_data\<close>; \<open>None\<close> is no file selected.\<close>

definition process_data ::
  "(raw_line list \<Rightarrow> failure + dataframe) \<Rightarrow> (string \<Rightarrow> number option) \<Rightarrow>
   string option \<Rightarrow> options \<Rightarrow> data_file option \<Rightarrow> failure + outcome" where
  "process_data read_csv parse answer opts file =
     (case file of
        None \<Rightarrow> Inl NoFileSelected
      | Some Other \<Rightarrow> Inl UnsupportedFileType
      | Some (Csv f) \<Rightarrow>
          (case read_csv_with_header_detection read_csv f of
             Inl e \<Rightarrow> Inl e
           | Inr df \<Rightarrow> process_frame parse opts df)
      | Some (Excel xls) \<Rightarrow>
          (case snd (read_excel_with_header_detection answer xls) of
             Inl e \<Rightarrow> Inl e
           | Inr df \<Rightarrow> process_frame parse opts df))"

section \<open>A tokenizer and a number reader for the examples\<close>

text \<open>
  For files without quotes: the fields of a line are its parts between commas, an empty
  field is a missing value, every other field is kept as text, blank lines are skipped,
  and a line that does not decode is an error.
\<close>

fun split_fields :: "string \<Rightarrow> string list" where
  "split_fields [] = [[]]"
| "split_fields (c # s) =
     (if c = CHR '','' then [] # split_fields s
      else (case split_fields s of [] \<Rightarrow> [[c]] | x # xs \<Rightarrow> (c # x) # xs))"

definition chomp :: "string \<Rightarrow> string" where
  "chomp line = rev (dropWhile (\<lambda>c. c = CHR 0x0A \<or> c = CHR 0x0D) (rev line))"

definition field_cell :: "string \<Rightarrow> cell" where
  "field_cell field = (if field = [] then Blank else Text field)"

fun decode_lines :: "raw_line list \<Rightarrow> string list option" where
  "decode_lines [] = Some []"
| "decode_lines (Undecodable # f) = None"
| "decode_lines (Line line # f) = map_option ((#) line) (decode_lines f)"

definition plain_csv :: "raw_line list \<Rightarrow> failure + dataframe" where
  "plain_csv f =
     (case decode_lines f of
        None \<Rightarrow> Inl UnexpectedError
      | Some ls \<Rightarrow>
          (case filter (\<lambda>line. chomp line \<noteq> []) ls of
             [] \<Rightarrow> Inl EmptyDataError
           | header # data \<Rightarrow>
               Inr \<lparr>columns = map Text (split_fields (chomp header)),
                    rows = map (\<lambda>line. map field_cell (split_fields (chomp line))) data\<rparr>))"

text \<open>Unsigned decimal numerals, read as integers: the only numbers of the examples.\<close>

definition isdigit :: "char \<Rightarrow> bool" where
  "isdigit c \<longleftrightarrow> c \<in> set ''0123456789''"

definition parse_digits :: "string \<Rightarrow> number option" where
  "parse_digits s =
     (if s \<noteq> [] \<and> list_all isdigit s
      then Some (Integer (foldl (\<lambda>n c. 10 * n + (of_char c - 48)) 0 s))
      else None)"

section \<open>Properties of the header scan\<close>

lemma hp_head: "\<not> isspace (hd header_prefix)" "\<not> isspace (last header_prefix)" "header_prefix \<noteq> []"
  by (simp_all add: header_prefix_def isspace_def)

lemma startswith_append: "startswith (p @ r) p"
  by (simp add: startswith_def)

lemma startswith_iff: "startswith s p \<longleftrightarrow> (\<exists>r. s = p @ r)"
  unfolding startswith_def
  by (metis append_eq_conv_conj append_take_drop_id)

lemma lstrip_spaces: "\<forall>c\<in>set ws. isspace c \<Longrightarrow> s \<noteq> [] \<Longrightarrow> \<not> isspace (hd s) \<Longrightarrow> lstrip (ws @ s) = s"
  by (cases s) (simp_all add: lstrip_def dropWhile_append)

lemma rstrip_keeps: "p \<noteq> [] \<Longrightarrow> \<not> isspace (last p) \<Longrightarrow> \<exists>r'. rstrip (p @ r) = p @ r'"
  by (cases p rule: rev_cases) (auto simp: rstrip_def dropWhile_append)

lemma is_header_line_indented:
  "\<forall>c\<in>set ws. isspace c \<Longrightarrow> is_header_line (ws @ header_prefix @ rest)"
  using rstrip_keeps[OF hp_head(3) hp_head(2), of rest]
  by (auto simp: is_header_line_def strip_def lstrip_spaces hp_head startswith_iff)

lemma lstrip_decomp: "\<exists>ws. s = ws @ lstrip s \<and> (\<forall>c\<in>set ws. isspace c)"
  unfolding lstrip_def
  by (metis takeWhile_dropWhile_id set_takeWhileD)

lemma rstrip_decomp: "\<exists>ws. s = rstrip s @ ws"
  unfolding rstrip_def
  by (metis rev_append rev_rev_ident takeWhile_dropWhile_id)

lemma is_header_line_iff:
  "is_header_line line \<longleftrightarrow> (\<exists>ws rest. line = ws @ header_prefix @ rest \<and> (\<forall>c\<in>set ws. isspace c))"
proof
  assume "is_header_line line"
  then obtain r where r: "strip line = header_prefix @ r"
    by (auto simp: is_header_line_def startswith_iff)
  obtain ws where ws: "line = ws @ lstrip line" "\<forall>c\<in>set ws. isspace c"
    using lstrip_decomp by blast
  obtain t where t: "lstrip line = rstrip (lstrip line) @ t"
    using rstrip_decomp by blast
  have "line = ws @ header_prefix @ (r @ t)"
    using ws(1) t r by (simp add: strip_def)
  with ws(2) show "\<exists>ws rest. line = ws @ header_prefix @ rest \<and> (\<forall>c\<in>set ws. isspace c)"
    by blast
next
  assume "\<exists>ws rest. line = ws @ header_prefix @ rest \<and> (\<forall>c\<in>set ws. isspace c)"
  then show "is_header_line line"
    using is_header_line_indented by blast
qed


lemma skiprows_from:
  "map snd (filter (\<lambda>(i, line). k \<le> i) (enumerate n f)) = drop (k - n) f"
proof (induction f arbitrary: n)
  case Nil
  then show ?case by simp
next
  case (Cons line f)
  show ?case
  proof (cases "k \<le> n")
    case True
    with Cons[of "Suc n"] show ?thesis by simp
  next
    case False
    then have "k - n = Suc (k - Suc n)" by simp
    with False Cons[of "Suc n"] show ?thesis by simp
  qed
qed

lemma skiprows_upto: "skiprows [0..<k] f = drop k f"
proof -
  have "(\<lambda>(i, line::'a). i \<notin> set [0..<k]) = (\<lambda>(i, line). k \<le> i)"
    by (auto simp: fun_eq_iff)
  then show ?thesis
    using skiprows_from[of k 0 f] by (simp add: skiprows_def)
qed

lemma find_header_row_first:
  "\<forall>l\<in>set pre. \<not> is_header_line l \<Longrightarrow> is_header_line line \<Longrightarrow>
   find_header_row n (map Line pre @ Line line # post) = Inr (Some (n + length pre))"
  by (induction pre arbitrary: n) simp_all



lemmas eval_strings =
  is_header_line_def startswith_def strip_def lstrip_def rstrip_def isspace_def header_prefix_def




text \<open>
  C10. A line that consists of whitespace, the header prefix and anything after it
  passes the header test, and the scan stops at it.
\<close>

theorem indented_header_accepted:
  "\<forall>c\<in>set ws. isspace c \<Longrightarrow>
   is_header_line (ws @ header_prefix @ rest) \<and>
   find_header_row idx (Line (ws @ header_prefix @ rest) # f) = Inr (Some idx)"
  by (simp add: is_header_line_indented)

theorem indented_header_accepted_witness:
  "isspace (CHR 0x20) \<and> isspace (CHR 0x09) \<and>
   is_header_line ([CHR 0x20, CHR 0x09] @ ''Time,Metric,Value,Measurement,Percentage Loss\<newline>'') \<and>
   find_header_row 0
     [Line ([CHR 0x20, CHR 0x09] @ ''Time,Metric,Value,Measurement,Percentage Loss\<newline>''),
      Line ''1,m,1,X,5\<newline>''] = Inr (Some 0)"
proof -
  have h: "\<forall>c\<in>set [CHR 0x20, CHR 0x09]. isspace c"
    by (simp add: isspace_def)
  from h indented_header_accepted[OF h, of "'',Percentage Loss\<newline>''" 0
      "[Line ''1,m,1,X,5\<newline>'']"]
  show ?thesis by (simp add: header_prefix_def)
qed

section \<open>Properties of the Excel reader and of the check of the columns\<close>

lemma count_list_distinct: "distinct xs \<Longrightarrow> \<not> 1 < count_list xs x"
  by (induction xs) (auto simp: count_list_0_iff)

lemma excel_distinct_names:
  "distinct (map fst xls) \<Longrightarrow>
   read_excel_with_header_detection answer xls =
     (False, case search_sheets xls (map fst xls) of
               None \<Rightarrow> Inl HeaderNotFound
             | Some (selected_sheet, idx, df) \<Rightarrow> validate_columns df)"
proof -
  assume "distinct (map fst xls)"
  then have "\<not> 1 < count_list (map fst xls) s" for s
    by (rule count_list_distinct)
  then show ?thesis
    by (simp add: read_excel_with_header_detection_def Let_def split: option.splits)
qed

lemma has_required_columns_missing: "has_required_columns df \<longleftrightarrow> missing_columns df = []"
  by (auto simp: has_required_columns_def missing_columns_def list_all_iff filter_empty_conv)

text \<open>
  C4 fails on the code. In this workbook of two sheets both sheets have a row whose first
  cell starts with \<open>Time\<close>; the reader does not ask, even though an answer is at hand,
  and returns the frame of the first sheet. By \<open>excel_distinct_names\<close> it never asks
  when the names of the sheets are distinct.
\<close>

theorem two_sheets_with_header_never_asked:
  "read_excel_with_header_detection (Some ''Sheet2'')
     [(''Sheet1'', [[Text ''Time'', Text ''Measurement'', Text ''Percentage Loss''],
                    [Number (Integer 1), Text ''A'', Number (Integer 5)]]),
      (''Sheet2'', [[Text ''Time'', Text ''Measurement'', Text ''Percentage Loss''],
                    [Number (Integer 2), Text ''B'', Number (Integer 7)]])] =
   (False, Inr \<lparr>columns = [Text ''Time'', Text ''Measurement'', Text ''Percentage Loss''],
                rows = [[Number (Integer 1), Text ''A'', Number (Integer 5)]]\<rparr>)"
  by code_simp

text \<open>
  C5 as stated fails: for a header with \<open>Percentage Loss\<close> and without \<open>Measurement\<close>
  the failure names both required columns, while the only missing one is \<open>Measurement\<close>.
\<close>

theorem missing_columns_counterexample:
  "read_excel_with_header_detection None
     [(''Sheet1'', [[Text ''Time'', Text ''Percentage Loss''], [Number (Integer 1), Number (Integer 5)]])] =
   (False, Inl (MissingColumns [''Measurement'', ''Percentage Loss''])) \<and>
   missing_columns \<lparr>columns = [Text ''Time'', Text ''Percentage Loss''],
                    rows = [[Number (Integer 1), Number (Integer 5)]]\<rparr> = [''Measurement'']"
  by code_simp

text \<open>
  C5, as amended. Whenever the frame read below the detected header lacks a required
  column, the CSV reader and the Excel reader (for a workbook with distinct sheet names)
  fail with \<open>MissingColumns\<close> carrying the whole list of required columns.
\<close>

theorem missing_columns_lists_all_required:
  "(is_header_line line \<and> (\<forall>l\<in>set pre. \<not> is_header_line l) \<and>
    read_csv (Line line # post) = Inr df \<and> missing_columns df \<noteq> [] \<longrightarrow>
      read_csv_with_header_detection read_csv (map Line pre @ Line line # post) =
        Inl (MissingColumns [''Measurement'', ''Percentage Loss''])) \<and>
   (distinct (map fst xls) \<and> search_sheets xls (map fst xls) = Some (sheet, idx, df') \<and>
    missing_columns df' \<noteq> [] \<longrightarrow>
      read_excel_with_header_detection answer xls =
        (False, Inl (MissingColumns [''Measurement'', ''Percentage Loss''])))"
proof (intro conjI impI)
  assume h: "is_header_line line \<and> (\<forall>l\<in>set pre. \<not> is_header_line l) \<and>
    read_csv (Line line # post) = Inr df \<and> missing_columns df \<noteq> []"
  then have "find_header_row 0 (map Line pre @ Line line # post) = Inr (Some (length pre))"
    using find_header_row_first[of pre line 0 post] by simp
  with h show "read_csv_with_header_detection read_csv (map Line pre @ Line line # post) =
        Inl (MissingColumns [''Measurement'', ''Percentage Loss''])"
    by (simp add: read_csv_with_header_detection_def skiprows_upto validate_columns_def
        has_required_columns_missing required_columns_def)
next
  assume h: "distinct (map fst xls) \<and> search_sheets xls (map fst xls) = Some (sheet, idx, df') \<and>
    missing_columns df' \<noteq> []"
  then show "read_excel_with_header_detection answer xls =
        (False, Inl (MissingColumns [''Measurement'', ''Percentage Loss'']))"
    by (simp add: excel_distinct_names validate_columns_def has_required_columns_missing
        required_columns_def)
qed

theorem missing_columns_lists_all_required_witness:
  "read_csv_with_header_detection plain_csv
     [Line ''junk\<newline>'', Line ''Time,Metric,Value,Measurements,Percentage Loss\<newline>'',
      Line ''1,m,1,X,5\<newline>''] =
     Inl (MissingColumns [''Measurement'', ''Percentage Loss'']) \<and>
   read_excel_with_header_detection None
     [(''Sheet1'', [[Text ''Time'', Text ''Measurement''], [Number (Integer 1), Text ''A'']])] =
     (False, Inl (MissingColumns [''Measurement'', ''Percentage Loss'']))"
proof -
  let ?df = "\<lparr>columns = [Text ''Time'', Text ''Metric'', Text ''Value'', Text ''Measurements'',
                          Text ''Percentage Loss''],
              rows = [[Text ''1'', Text ''m'', Text ''1'', Text ''X'', Text ''5'']]\<rparr>"
  let ?df' = "\<lparr>columns = [Text ''Time'', Text ''Measurement''], rows = [[Number (Integer 1), Text ''A'']]\<rparr>"
  let ?xls = "[(''Sheet1'', [[Text ''Time'', Text ''Measurement''], [Number (Integer 1), Text ''A'']])]"
  have a: "is_header_line ''Time,Metric,Value,Measurements,Percentage Loss\<newline>'' \<and>
      (\<forall>l\<in>set [''junk\<newline>'']. \<not> is_header_line l) \<and>
      plain_csv [Line ''Time,Metric,Value,Measurements,Percentage Loss\<newline>'',
                 Line ''1,m,1,X,5\<newline>''] = Inr ?df \<and>
      missing_columns ?df \<noteq> []"
    by (simp add: eval_strings plain_csv_def chomp_def field_cell_def missing_columns_def
        required_columns_def)
  have b: "distinct (map fst ?xls) \<and> search_sheets ?xls (map fst ?xls) = Some (''Sheet1'', 0, ?df') \<and>
      missing_columns ?df' \<noteq> []"
    by (simp add: sheet_by_name_def read_excel_def startswith_def missing_columns_def
        required_columns_def)
  from a b
    missing_columns_lists_all_required[of
      "''Time,Metric,Value,Measurements,Percentage Loss\<newline>''" "[''junk\<newline>'']"
      plain_csv "[Line ''1,m,1,X,5\<newline>'']" ?df ?xls "''Sheet1''" 0 ?df' None]
  show ?thesis by simp
qed

section \<open>Properties of cleaning and grouping\<close>

lemma index_of_None: "index_of c xs = None \<longleftrightarrow> c \<notin> set xs"
  by (induction xs) auto

lemma has_required_columns_iff:
  "has_required_columns df \<longleftrightarrow>
     (\<exists>i j. index_of (Text ''Percentage Loss'') (columns df) = Some i \<and>
            index_of (Text ''Measurement'') (columns df) = Some j)"
  using index_of_None[of "Text ''Percentage Loss''" "columns df"]
    index_of_None[of "Text ''Measurement''" "columns df"]
  by (auto simp: has_required_columns_def required_columns_def)

lemma zip_columns: "zip (map f xs) (map g xs) = map (\<lambda>x. (f x, g x)) xs"
  by (induction xs) simp_all

lemma process_frame_cleaned:
  "process_frame parse opts df =
     (if has_required_columns df
      then Inr (summary opts (int64_frame parse df) (length (rows df)) (cleaned parse df))
      else Inl UnexpectedError)"
proof (cases "has_required_columns df")
  case True
  then obtain i j where ij: "index_of (Text ''Percentage Loss'') (columns df) = Some i"
      "index_of (Text ''Measurement'') (columns df) = Some j"
    using has_required_columns_iff by blast
  show ?thesis
    using True ij
    by (simp add: process_frame_def column_def cleaned_def int64_frame_def loss_cell_def
        measurement_cell_def zip_columns summary_def Let_def comp_def)
next
  case False
  then have "index_of (Text ''Percentage Loss'') (columns df) = None \<or>
      index_of (Text ''Measurement'') (columns df) = None"
    using has_required_columns_iff[of df] by auto
  with False show ?thesis
    by (auto simp: process_frame_def column_def split: option.splits)
qed

subsection \<open>dropna\<close>

lemma dropna_filter:
  "dropna xs =
     map (\<lambda>(m, v). (m, number_value (the v))) (filter (\<lambda>(m, v). v \<noteq> None) xs)"
  by (induction xs rule: dropna.induct) simp_all

lemma cleaned_rows_update [simp]:
  "loss_cell (df\<lparr>rows := rs\<rparr>) = loss_cell df"
  "measurement_cell (df\<lparr>rows := rs\<rparr>) = measurement_cell df"
  "has_required_columns (df\<lparr>rows := rs\<rparr>) = has_required_columns df"
  by (simp_all add: loss_cell_def measurement_cell_def has_required_columns_def fun_eq_iff)




lemma cleaned_perm:
  "mset rs = mset (rows df) \<Longrightarrow> mset (cleaned parse (df\<lparr>rows := rs\<rparr>)) = mset (cleaned parse df)"
  by (simp add: cleaned_def dropna_filter)

lemma int64_frame_perm:
  "mset rs = mset (rows df) \<Longrightarrow> int64_frame parse (df\<lparr>rows := rs\<rparr>) = int64_frame parse df"
proof -
  assume "mset rs = mset (rows df)"
  then have "set rs = set (rows df)"
    by (rule mset_eq_setD)
  then show ?thesis
    by (simp add: int64_frame_def int64_column_def list_all_iff)
qed

lemma is_int64_Some:
  "is_int64 v \<Longrightarrow> \<exists>i. v = Some (Integer i) \<and> - (2 ^ 63) \<le> i \<and> i < 2 ^ 63"
  by (cases v rule: is_int64.cases) simp_all

lemma int64_frame_no_invalid:
  "int64_frame parse df \<Longrightarrow> row \<in> set (rows df) \<Longrightarrow> \<not> invalid_row parse df row"
  by (auto simp: int64_frame_def int64_column_def list_all_iff invalid_row_def
      dest!: is_int64_Some bspec)

subsection \<open>groupby\<close>

lemma set_map_filter: "set (List.map_filter f xs) = {y. \<exists>x\<in>set xs. f x = Some y}"
  by (force simp: List.map_filter_def)


lemma sorted_group_keys: "sorted_wrt (<) (group_keys c)"
  by (simp add: group_keys_def)

lemma set_group_values:
  "set (group_values c k) = {v. \<exists>m. (m, v) \<in> set c \<and> key_of m = Some k}"
  by (force simp: group_values_def)


lemma groupby_set_cong: "set c' = set c \<Longrightarrow> groupby_min_max c' = groupby_min_max c"
  by (simp add: groupby_min_max_def group_keys_def set_group_values set_map_filter)

lemma keys_groupby: "map Measurement (groupby_min_max c) = group_keys c"
  by (simp add: groupby_min_max_def comp_def)

lemma add_average_fields [simp]:
  "Measurement (add_average int64 g) = Measurement g"
  "Min_Loss (add_average int64 g) = Min_Loss g"
  "Max_Loss (add_average int64 g) = Max_Loss g"
  "Average (add_average int64 g) =
     Some (if int64 then Finite (of_int (int64_add \<lfloor>Min_Loss g\<rfloor> \<lfloor>Max_Loss g\<rfloor>) / 2)
           else half (float_add (Min_Loss g) (Max_Loss g)))"
  by (simp_all add: add_average_def)

lemma keys_summary: "map Measurement (grouped_data (summary opts int64 n c)) = group_keys c"
  using keys_groupby[of c] by (simp add: summary_def Let_def comp_def groupby_min_max_def)



lemma summary_perm: "mset c' = mset c \<Longrightarrow> summary opts int64 n c' = summary opts int64 n c"
proof -
  assume h: "mset c' = mset c"
  then have "set c' = set c" "length c' = length c"
    using mset_eq_setD mset_eq_length by blast+
  then show ?thesis
    by (simp add: summary_def groupby_set_cong[of c' c])
qed

lemma key_less [simp]:
  "TextKey s < TextKey t \<longleftrightarrow> s < t"
  "NumKey x < NumKey y \<longleftrightarrow> x < y"
  "NumKey x < TextKey t"
  "\<not> TextKey s < NumKey y"
  by (auto simp: less_key_def)

lemma invalid_row_rows_update [simp]:
  "invalid_row parse (df\<lparr>rows := rs\<rparr>) = invalid_row parse df"
  by (simp add: invalid_row_def fun_eq_iff)


subsection \<open>From the readers to the summary\<close>

lemma read_csv_validated:
  "read_csv_with_header_detection read_csv f = Inr df \<Longrightarrow> has_required_columns df"
  by (auto simp: read_csv_with_header_detection_def validate_columns_def
      split: option.splits sum.splits if_splits)

lemma read_excel_validated:
  "snd (read_excel_with_header_detection answer xls) = Inr df \<Longrightarrow> has_required_columns df"
  by (auto simp: read_excel_with_header_detection_def validate_columns_def Let_def
      split: option.splits if_splits)

lemma process_data_csv:
  "read_csv_with_header_detection read_csv f = Inr df \<Longrightarrow>
   process_data read_csv parse answer opts (Some (Csv f)) = process_frame parse opts df \<and>
   process_frame parse opts df =
     Inr (summary opts (int64_frame parse df) (length (rows df)) (cleaned parse df))"
  by (simp add: process_data_def process_frame_cleaned read_csv_validated)

lemma process_data_excel:
  "snd (read_excel_with_header_detection answer xls) = Inr df \<Longrightarrow>
   process_data read_csv parse answer opts (Some (Excel xls)) = process_frame parse opts df \<and>
   process_frame parse opts df =
     Inr (summary opts (int64_frame parse df) (length (rows df)) (cleaned parse df))"
  by (simp add: process_data_def process_frame_cleaned read_excel_validated)

lemmas eval_columns = has_required_columns_def required_columns_def





subsection \<open>Averages\<close>






lemma cleaned_all_invalid:
  "list_all (invalid_row parse df) (rows df) \<Longrightarrow> cleaned parse df = []"
  by (simp add: cleaned_def dropna_filter filter_map comp_def invalid_row_def case_prod_unfold
      list_all_iff filter_empty_conv)

text \<open>
  C3 as stated fails: a frame whose only row has no number as its value is processed to
  an empty summary, not to a failure.
\<close>

theorem no_valid_data_counterexample:
  "process_frame parse_digits \<lparr>include_average = False, include_overall_average = False\<rparr>
     \<lparr>columns = [Text ''Measurement'', Text ''Percentage Loss''],
      rows = [[Text ''X'', Text ''abc'']]\<rparr> =
   Inr \<lparr>grouped_data = [], overall_min_avg = None, overall_max_avg = None,
        warning = Some 1\<rparr>"
  by code_simp

text \<open>
  C3, as amended. When no row has a value that can be coerced (or there is no row at
  all), processing does not fail: the summary is empty, the overall averages, if
  requested, are \<open>NaN\<close>, and the warning counts every row.
\<close>

theorem empty_cleaned_table_empty_summary:
  assumes "has_required_columns df" and "list_all (invalid_row parse df) (rows df)"
  shows "process_frame parse opts df =
     Inr \<lparr>grouped_data = [],
          overall_min_avg = (if include_overall_average opts then Some None else None),
          overall_max_avg = (if include_overall_average opts then Some None else None),
          warning = (if rows df = [] then None else Some (length (rows df)))\<rparr>"
  using assms
  by (simp add: process_frame_cleaned cleaned_all_invalid summary_def groupby_min_max_def
      group_keys_def mean_def List.map_filter_simps)

theorem empty_cleaned_table_empty_summary_witness:
  "process_frame parse_digits \<lparr>include_average = True, include_overall_average = True\<rparr>
     \<lparr>columns = [Text ''Measurement'', Text ''Percentage Loss''],
      rows = [[Text ''X'', Text ''abc''], [Text ''Y'', Blank]]\<rparr> =
   Inr \<lparr>grouped_data = [], overall_min_avg = Some None, overall_max_avg = Some None,
        warning = Some 2\<rparr>"
  (is "process_frame ?p ?o ?df = _")
proof -
  have h: "has_required_columns ?df"
    by (simp add: eval_columns)
  have bad: "list_all (invalid_row ?p ?df) (rows ?df)"
    by code_simp
  from empty_cleaned_table_empty_summary[OF h bad, of ?o]
  show ?thesis by simp
qed






text \<open>
  C8 as stated fails: keys that are numbers are sorted by value, so the group of \<open>9\<close>
  comes before the group of \<open>10\<close>, while as strings \<open>10\<close> comes before \<open>9\<close>.
\<close>

theorem numeric_keys_counterexample:
  "process_frame parse_digits \<lparr>include_average = False, include_overall_average = False\<rparr>
     \<lparr>columns = [Text ''Measurement'', Text ''Percentage Loss''],
      rows = [[Number (Integer 10), Number (Integer 1)],
              [Number (Integer 9), Number (Integer 2)]]\<rparr> =
   Inr \<lparr>grouped_data =
          [\<lparr>Measurement = NumKey 9, Min_Loss = 2, Max_Loss = 2, Average = None\<rparr>,
           \<lparr>Measurement = NumKey 10, Min_Loss = 1, Max_Loss = 1, Average = None\<rparr>],
        overall_min_avg = None, overall_max_avg = None, warning = None\<rparr> \<and>
   ''10'' < ''9''"
  by code_simp

text \<open>
  C8, as amended. The keys of the summary are strictly ascending in the order of the
  keys: strings by string comparison, numbers by value, numbers before strings; and the
  outcome is the same for every permutation of the rows.
\<close>

theorem groups_sorted_by_key:
  assumes "process_frame parse opts df = Inr out"
  shows "sorted_wrt (<) (map Measurement (grouped_data out)) \<and>
     (\<forall>i j. i < j \<and> j < length (grouped_data out) \<longrightarrow>
        (\<forall>s t. Measurement (grouped_data out ! i) = TextKey s \<and>
               Measurement (grouped_data out ! j) = TextKey t \<longrightarrow> s < t) \<and>
        (\<forall>x y. Measurement (grouped_data out ! i) = NumKey x \<and>
               Measurement (grouped_data out ! j) = NumKey y \<longrightarrow> x < y) \<and>
        (\<forall>s y. \<not> (Measurement (grouped_data out ! i) = TextKey s \<and>
                  Measurement (grouped_data out ! j) = NumKey y))) \<and>
     (\<forall>rs. mset rs = mset (rows df) \<longrightarrow> process_frame parse opts (df\<lparr>rows := rs\<rparr>) = Inr out)"
proof -
  from assms have req: "has_required_columns df"
    and out: "out = summary opts (int64_frame parse df) (length (rows df)) (cleaned parse df)"
    by (simp_all add: process_frame_cleaned split: if_splits)
  have sorted: "sorted_wrt (<) (map Measurement (grouped_data out))"
    by (simp add: out keys_summary sorted_group_keys)
  have less: "Measurement (grouped_data out ! i) < Measurement (grouped_data out ! j)"
    if "i < j" "j < length (grouped_data out)" for i j
  proof -
    from sorted that
    have "map Measurement (grouped_data out) ! i < map Measurement (grouped_data out) ! j"
      by (simp add: sorted_wrt_iff_nth_less)
    with that show ?thesis by simp
  qed
  have order: "(\<forall>s t. Measurement (grouped_data out ! i) = TextKey s \<and>
               Measurement (grouped_data out ! j) = TextKey t \<longrightarrow> s < t) \<and>
        (\<forall>x y. Measurement (grouped_data out ! i) = NumKey x \<and>
               Measurement (grouped_data out ! j) = NumKey y \<longrightarrow> x < y) \<and>
        (\<forall>s y. \<not> (Measurement (grouped_data out ! i) = TextKey s \<and>
                  Measurement (grouped_data out ! j) = NumKey y))"
    if "i < j \<and> j < length (grouped_data out)" for i j
    using less[of i j] that by auto
  have perm: "process_frame parse opts (df\<lparr>rows := rs\<rparr>) = Inr out" if "mset rs = mset (rows df)" for rs
  proof -
    have "length rs = length (rows df)"
      using that mset_eq_length by blast
    then show ?thesis
      using req summary_perm[OF cleaned_perm[OF that]] int64_frame_perm[OF that]
      by (simp add: process_frame_cleaned out)
  qed
  from sorted order perm show ?thesis by blast
qed

theorem groups_sorted_by_key_witness:
  "process_frame parse_digits \<lparr>include_average = False, include_overall_average = False\<rparr>
     \<lparr>columns = [Text ''Measurement'', Text ''Percentage Loss''],
      rows = [[Text ''b'', Text ''1''], [Text ''9'', Text ''2''], [Number (Integer 10), Text ''3''],
              [Text ''10'', Text ''4''], [Number (Integer 9), Text ''5'']]\<rparr> =
   Inr \<lparr>grouped_data =
          [\<lparr>Measurement = NumKey 9, Min_Loss = 5, Max_Loss = 5, Average = None\<rparr>,
           \<lparr>Measurement = NumKey 10, Min_Loss = 3, Max_Loss = 3, Average = None\<rparr>,
           \<lparr>Measurement = TextKey ''10'', Min_Loss = 4, Max_Loss = 4, Average = None\<rparr>,
           \<lparr>Measurement = TextKey ''9'', Min_Loss = 2, Max_Loss = 2, Average = None\<rparr>,
           \<lparr>Measurement = TextKey ''b'', Min_Loss = 1, Max_Loss = 1, Average = None\<rparr>],
        overall_min_avg = None, overall_max_avg = None, warning = None\<rparr> \<and>
   process_frame parse_digits \<lparr>include_average = False, include_overall_average = False\<rparr>
     \<lparr>columns = [Text ''Measurement'', Text ''Percentage Loss''],
      rows = [[Number (Integer 9), Text ''5''], [Text ''10'', Text ''4''],
              [Number (Integer 10), Text ''3''], [Text ''9'', Text ''2''], [Text ''b'', Text ''1'']]\<rparr> =
   Inr \<lparr>grouped_data =
          [\<lparr>Measurement = NumKey 9, Min_Loss = 5, Max_Loss = 5, Average = None\<rparr>,
           \<lparr>Measurement = NumKey 10, Min_Loss = 3, Max_Loss = 3, Average = None\<rparr>,
           \<lparr>Measurement = TextKey ''10'', Min_Loss = 4, Max_Loss = 4, Average = None\<rparr>,
           \<lparr>Measurement = TextKey ''9'', Min_Loss = 2, Max_Loss = 2, Average = None\<rparr>,
           \<lparr>Measurement = TextKey ''b'', Min_Loss = 1, Max_Loss = 1, Average = None\<rparr>],
        overall_min_avg = None, overall_max_avg = None, warning = None\<rparr> \<and>
   (9::rat) < 10 \<and> ''10'' < ''9'' \<and> ''9'' < ''b''"
  (is "process_frame ?p ?o ?df = Inr ?r \<and> process_frame ?p ?o ?df' = Inr ?r \<and> _")
proof -
  have ev: "process_frame ?p ?o ?df = Inr ?r"
    by code_simp
  have perm: "mset (rows ?df') = mset (rows ?df)"
    by simp
  note key_order = groups_sorted_by_key[OF ev]
  from key_order perm have 1: "process_frame ?p ?o (?df\<lparr>rows := rows ?df'\<rparr>) = Inr ?r"
    by blast
  note pairs = key_order[THEN conjunct2, THEN conjunct1, rule_format]
  have 2: "(9::rat) < 10"
    using pairs[of 0 1, THEN conjunct2, THEN conjunct1, rule_format, of 9 10] by simp
  have 3: "''10'' < ''9''"
    using pairs[of 2 3, THEN conjunct1, rule_format, of "''10''" "''9''"] by simp
  have 4: "''9'' < ''b''"
    using pairs[of 3 4, THEN conjunct1, rule_format, of "''9''" "''b''"] by simp
  from ev 1 2 3 4 show ?thesis by simp
qed




end
